theory Spec2Isabelle
  imports Main "HOL-Library.Word"
begin

section \<open>Bytes, addresses and errors\<close>

type_synonym byte = "8 word"
type_synonym bytes = "byte list"

text \<open>A Go \<^verbatim>\<open>error\<close> value, kept as the message its \<^verbatim>\<open>Error()\<close> method gives.\<close>

type_synonym error = string

text \<open>
  \<^verbatim>\<open>common.Address\<close> is the array type \<^verbatim>\<open>[20]byte\<close>: exactly twenty bytes, here the
  160-bit word they spell, most significant byte first.
\<close>

type_synonym Address = "160 word"

text \<open>The conversion \<^verbatim>\<open>[]byte(s)\<close> of a string constant (ASCII here).\<close>

definition bytes_of :: "string \<Rightarrow> bytes" where
  "bytes_of s = map of_char s"

text \<open>
  Go's builtin \<^verbatim>\<open>copy(dst, src)\<close>: the first \<open>min (len dst) (len src)\<close> elements of
  \<open>dst\<close> are overwritten with those of \<open>src\<close>; the rest of \<open>dst\<close> stays.
\<close>

definition copy_bytes :: "bytes \<Rightarrow> bytes \<Rightarrow> bytes" where
  "copy_bytes dst src =
     (let n = min (length dst) (length src) in take n src @ drop n dst)"

section \<open>Big-endian encodings\<close>

text \<open>The \<open>k\<close> low-order bytes of an integer, most significant first.\<close>

fun be_bytes :: "nat \<Rightarrow> int \<Rightarrow> bytes" where
  "be_bytes 0 m = []"
| "be_bytes (Suc k) m = be_bytes k (m div 256) @ [word_of_int m]"

text \<open>The value a byte string denotes when read as a big-endian unsigned number.\<close>

definition be_val :: "bytes \<Rightarrow> int" where
  "be_val bs = foldl (\<lambda>a b. a * 256 + uint b) 0 bs"

text \<open>\<^verbatim>\<open>Address.Bytes()\<close>: the twenty bytes as a slice.\<close>

definition Bytes :: "Address \<Rightarrow> bytes" where
  "Bytes a = be_bytes 20 (uint a)"

text \<open>
  \<^verbatim>\<open>common.BytesToAddress\<close>: the last twenty bytes of the input, padded on the left
  with zeros when there are fewer.
\<close>

definition BytesToAddress :: "bytes \<Rightarrow> Address" where
  "BytesToAddress bs = word_of_int (be_val bs)"

text \<open>
  Modelled from the spec: \<^verbatim>\<open>abi.U256\<close> of go-ethereum, which the repository calls and
  does not contain. The spec describes its result as a big-endian, fixed-width
  (32-byte) encoding with unsigned 256-bit field width; the integer is reduced to
  that width (modulo \<open>2 ^ 256\<close>) and written in 32 bytes.
\<close>

definition U256 :: "int \<Rightarrow> bytes" where
  "U256 n = be_bytes 32 (n mod 2 ^ 256)"

section \<open>Promises (package promises)\<close>

record Promise =
  Receiver :: Address
  SeqNo :: "64 word"
  Amount :: "64 word"

record IssuedPromise =
  Promise :: Promise
  IssuerSignature :: bytes

record ReceivedPromise =
  IssuedPromise :: IssuedPromise
  ReceiverSignature :: bytes

text \<open>\<^verbatim>\<open>registry.MystIdentity\<close>: only its private key is read.\<close>

record 'k MystIdentity =
  PrivateKey :: 'k

text \<open>
  The go-ethereum primitives the package calls. Each function that returns
  \<^verbatim>\<open>(value, error)\<close> in Go returns the pair here, \<open>None\<close> standing for a nil error.
  \<open>'k\<close> is the type of private keys, \<open>'p\<close> that of public keys.
\<close>

record ('k, 'p) crypto =
  keccak :: "bytes \<Rightarrow> bytes"
  Sign :: "bytes \<Rightarrow> 'k \<Rightarrow> bytes \<times> error option"
  Ecrecover :: "bytes \<Rightarrow> bytes \<Rightarrow> bytes \<times> error option"
  ToECDSAPub :: "bytes \<Rightarrow> 'p"
  PubkeyToAddress :: "'p \<Rightarrow> Address"

text \<open>
  \<^verbatim>\<open>crypto.Keccak256(data ...[]byte)\<close> writes its arguments to the hash state in order:
  it hashes their concatenation.
\<close>

definition Keccak256 :: "('k, 'p) crypto \<Rightarrow> bytes list \<Rightarrow> bytes" where
  "Keccak256 c ds = keccak c (concat ds)"

definition issuerPrefix :: string where
  "issuerPrefix = ''Issuer prefix:''"

definition receiverPrefix :: string where
  "receiverPrefix = ''Receiver prefix:''"

text \<open>\<^verbatim>\<open>big.NewInt(x)\<close> of an \<^verbatim>\<open>int64\<close> is its signed value.\<close>

definition HashBytes :: "('k, 'p) crypto \<Rightarrow> Promise \<Rightarrow> bytes" where
  "HashBytes c p =
     Keccak256 c [bytes_of issuerPrefix, Bytes (Receiver p),
                  U256 (sint (SeqNo p)), U256 (sint (Amount p))]"

definition SignByPayer ::
  "('k, 'p) crypto \<Rightarrow> Promise \<Rightarrow> 'k MystIdentity \<Rightarrow> IssuedPromise option \<times> error option"
where
  "SignByPayer c promise payer =
     (let hash = HashBytes c promise in
      case Sign c hash (PrivateKey payer) of
        (signature, Some err) \<Rightarrow> (None, Some err)
      | (signature, None) \<Rightarrow>
          (Some \<lparr>Promise = promise, IssuerSignature = signature\<rparr>, None))"

text \<open>
  The error of the second \<^verbatim>\<open>crypto.Sign\<close> is assigned and never read: the function
  returns the promise with whatever bytes \<^verbatim>\<open>Sign\<close> gave, and a nil error.
\<close>

definition SignByReceiver ::
  "('k, 'p) crypto \<Rightarrow> IssuedPromise \<Rightarrow> 'k MystIdentity \<Rightarrow>
     ReceivedPromise option \<times> error option"
where
  "SignByReceiver c promise receiver =
     (case Ecrecover c (HashBytes c (Promise promise)) (IssuerSignature promise) of
        (publicKey, Some err) \<Rightarrow> (None, Some err)
      | (publicKey, None) \<Rightarrow>
          (let pubKey = ToECDSAPub c publicKey;
               payerAddr = PubkeyToAddress c pubKey;
               hash = Keccak256 c [bytes_of receiverPrefix, HashBytes c (Promise promise),
                                   Bytes payerAddr];
               (sig, err) = Sign c hash (PrivateKey receiver)
           in (Some \<lparr>IssuedPromise = promise, ReceiverSignature = sig\<rparr>, None)))"

section \<open>Settlement (package promises, the clearing client)\<close>

text \<open>\<^verbatim>\<open>identity.DecomposedSignature\<close>: \<open>R\<close> and \<open>S\<close> are \<^verbatim>\<open>[32]byte\<close>, \<open>V\<close> is a \<^verbatim>\<open>uint8\<close>.\<close>

record DecomposedSignature =
  V :: byte
  R :: bytes
  S :: bytes

text \<open>
  The arguments of the ledger call \<^verbatim>\<open>ClearPromise\<close>, in its order: the packed word, the
  extra data hash, the sequence number, the amount, and \<open>R\<close>, \<open>S\<close> of the issuer's and of
  the receiver's signature.
\<close>

type_synonym clear_call =
  "bytes \<times> bytes \<times> int \<times> int \<times> bytes \<times> bytes \<times> bytes \<times> bytes"

text \<open>
  \<^verbatim>\<open>PromiseClearing\<close> embeds the generated contract session; \<^verbatim>\<open>ClearPromise\<close> is the
  session's method that sends the transaction. It acts on the ledger, whose state is
  \<open>'s\<close>, and returns the error of the call (the transaction it also returns is
  discarded by the caller).
\<close>

record 's PromiseClearing =
  ClearPromise :: "clear_call \<Rightarrow> 's \<Rightarrow> error option \<times> 's"

text \<open>
  \<^verbatim>\<open>identity.DecomposeSignature\<close> and the method \<^verbatim>\<open>ConsumerHash\<close> are defined
  elsewhere in the repository and are taken as the parameters \<open>DecomposeSignature\<close>
  and \<open>ConsumerHash\<close>. The first returns Go's pair \<^verbatim>\<open>(*DecomposedSignature, error)\<close>.

  \<^verbatim>\<open>copy(packedAddressAndSigns[10:32], addressAndSigns)\<close> writes into the slice that
  starts at offset 10 of the zeroed 32-byte array.
\<close>

definition ClearReceivedPromise ::
  "(bytes \<Rightarrow> DecomposedSignature \<times> error option) \<Rightarrow> (ReceivedPromise \<Rightarrow> bytes) \<Rightarrow>
     's PromiseClearing \<Rightarrow> ReceivedPromise \<Rightarrow> 's \<Rightarrow> error option \<times> 's"
where
  "ClearReceivedPromise DecomposeSignature ConsumerHash pc promise s =
     (case DecomposeSignature (IssuerSignature (IssuedPromise promise)) of
        (issuerSig, Some err) \<Rightarrow> (Some err, s)
      | (issuerSig, None) \<Rightarrow>
          (case DecomposeSignature (ReceiverSignature promise) of
             (receiverSig, Some err) \<Rightarrow> (Some err, s)
           | (receiverSig, None) \<Rightarrow>
               (let zeroed = replicate 32 0;
                    addressAndSigns = [V issuerSig, V receiverSig] @
                      Bytes (Receiver (Promise (IssuedPromise promise)));
                    packedAddressAndSigns =
                      take 10 zeroed @ copy_bytes (drop 10 (take 32 zeroed)) addressAndSigns;
                    extraDataHash = copy_bytes (replicate 32 0) (ConsumerHash promise)
                in ClearPromise pc
                     (packedAddressAndSigns, extraDataHash,
                      sint (SeqNo (Promise (IssuedPromise promise))),
                      sint (Amount (Promise (IssuedPromise promise))),
                      R issuerSig, S issuerSig, R receiverSig, S receiverSig) s)))"

text \<open>The amount argument of a ledger call.\<close>

definition call_amount :: "clear_call \<Rightarrow> int" where
  "call_amount call = fst (snd (snd (snd call)))"

text \<open>
  Modelled from the spec: \<^verbatim>\<open>identity.DecomposeSignature\<close>, which is not in the sources.
  The spec gives a signature as 65 bytes \<open>R \<parallel> S \<parallel> V\<close> and has the decomposition fail
  with \<open>MalformedSignatureError\<close> on input of another length.
\<close>

definition DecomposeSignature_spec :: "bytes \<Rightarrow> DecomposedSignature \<times> error option" where
  "DecomposeSignature_spec sig =
     (if length sig = 65
      then (\<lparr>V = sig ! 64, R = take 32 sig, S = take 32 (drop 32 sig)\<rparr>, None)
      else (\<lparr>V = 0, R = [], S = []\<rparr>, Some ''MalformedSignatureError''))"

section \<open>Channel exit (package bindings)\<close>

text \<open>An argument of a contract call, as the binding passes it.\<close>

datatype abi_value = AbiAddress Address | AbiUint int | AbiBytes bytes

text \<open>
  \<^verbatim>\<open>bind.BoundContract\<close>, seen through its method \<^verbatim>\<open>Transact(opts, method, params...)\<close>.
  The call acts on the ledger, whose state is \<open>'s\<close>; \<open>'r\<close> is what comes back (in Go the
  pair of a transaction and an error), \<open>'o\<close> the type of the transaction options.
\<close>

record ('o, 's, 'r) BoundContract =
  Transact :: "'o \<Rightarrow> string \<Rightarrow> abi_value list \<Rightarrow> 's \<Rightarrow> 'r \<times> 's"

record ('o, 's, 'r) ChannelImplementationTransactor =
  contract :: "('o, 's, 'r) BoundContract"

text \<open>The session holds the contract (of which the transactor is the part that sends) and preset options.\<close>

record ('o, 's, 'r) ChannelImplementationSession =
  Contract :: "('o, 's, 'r) ChannelImplementationTransactor"
  TransactOpts :: 'o

definition FinalizeExit ::
  "('o, 's, 'r) ChannelImplementationTransactor \<Rightarrow> 'o \<Rightarrow> 's \<Rightarrow> 'r \<times> 's" where
  "FinalizeExit t opts = Transact (contract t) opts ''finalizeExit'' []"

definition Session_FinalizeExit ::
  "('o, 's, 'r) ChannelImplementationSession \<Rightarrow> 's \<Rightarrow> 'r \<times> 's" where
  "Session_FinalizeExit sess = FinalizeExit (Contract sess) (TransactOpts sess)"

definition RequestExit ::
  "('o, 's, 'r) ChannelImplementationTransactor \<Rightarrow> 'o \<Rightarrow> Address \<Rightarrow> int \<Rightarrow> bytes \<Rightarrow>
     's \<Rightarrow> 'r \<times> 's" where
  "RequestExit t opts beneficiary_arg validUntil_arg signature_arg =
     Transact (contract t) opts ''requestExit''
       [AbiAddress beneficiary_arg, AbiUint validUntil_arg, AbiBytes signature_arg]"

definition Session_RequestExit ::
  "('o, 's, 'r) ChannelImplementationSession \<Rightarrow> Address \<Rightarrow> int \<Rightarrow> bytes \<Rightarrow> 's \<Rightarrow> 'r \<times> 's" where
  "Session_RequestExit sess beneficiary_arg validUntil_arg signature_arg =
     RequestExit (Contract sess) (TransactOpts sess) beneficiary_arg validUntil_arg signature_arg"

text \<open>
  Modelled from the spec: the exit protocol of the ledger contract behind the binding.
  The repository holds the contract as compiled bytecode only. The spec's words:
  a \<open>ChannelExitRequest\<close> is \<open>{beneficiary, validUntil, timelockExpiry, signature}\<close> and
  lives in the ledger; acceptance of \<open>requestExit\<close> starts a timelock and may supersede
  an earlier request; after the timelock elapses \<open>finalizeExit\<close> pays out to the
  requested beneficiary; before expiry it fails with \<open>ExitNotMatured\<close>. Which requests
  are accepted (\<open>accepted\<close>) and how long the timelock runs (\<open>delay\<close>) are the ledger's
  and stay parameters. What \<open>finalizeExit\<close> does with no request pending, and at the
  very instant of expiry, the spec leaves open: here it fails in the first case and
  pays in the second.
\<close>

record ChannelExitRequest =
  beneficiary :: Address
  validUntil :: int
  timelockExpiry :: nat
  signature :: bytes

datatype ledger_error = ExitNotMatured | NoExitRequest | RequestRejected | UnknownCall

datatype ledger_event = ExitRequested nat | FinalizeExitPaid nat

record Channel =
  clock :: nat
  exitRequest :: "ChannelExitRequest option"
  funds :: nat
  payouts :: "(Address \<times> nat) list"

definition ledger_requestExit ::
  "(Channel \<Rightarrow> Address \<Rightarrow> int \<Rightarrow> bytes \<Rightarrow> bool) \<Rightarrow> nat \<Rightarrow> Address \<Rightarrow> int \<Rightarrow> bytes \<Rightarrow>
     Channel \<Rightarrow> (ledger_error + ledger_event) \<times> Channel" where
  "ledger_requestExit accepted delay b vu sg ch =
     (if accepted ch b vu sg
      then (Inr (ExitRequested (clock ch + delay)),
            ch\<lparr>exitRequest := Some \<lparr>beneficiary = b, validUntil = vu,
                                     timelockExpiry = clock ch + delay, signature = sg\<rparr>\<rparr>)
      else (Inl RequestRejected, ch))"

definition ledger_finalizeExit :: "Channel \<Rightarrow> (ledger_error + ledger_event) \<times> Channel" where
  "ledger_finalizeExit ch =
     (case exitRequest ch of
        None \<Rightarrow> (Inl NoExitRequest, ch)
      | Some r \<Rightarrow>
          if clock ch < timelockExpiry r then (Inl ExitNotMatured, ch)
          else (Inr (FinalizeExitPaid (funds ch)),
                ch\<lparr>exitRequest := None, funds := 0,
                   payouts := payouts ch @ [(beneficiary r, funds ch)]\<rparr>))"

definition ledger_contract ::
  "(Channel \<Rightarrow> Address \<Rightarrow> int \<Rightarrow> bytes \<Rightarrow> bool) \<Rightarrow> nat \<Rightarrow>
     ('o, Channel, ledger_error + ledger_event) BoundContract" where
  "ledger_contract accepted delay =
     \<lparr>Transact = (\<lambda>opts method args ch.
        if method = ''finalizeExit'' then
          (case args of [] \<Rightarrow> ledger_finalizeExit ch | _ \<Rightarrow> (Inl UnknownCall, ch))
        else if method = ''requestExit'' then
          (case args of
             [AbiAddress b, AbiUint vu, AbiBytes sg] \<Rightarrow> ledger_requestExit accepted delay b vu sg ch
           | _ \<Rightarrow> (Inl UnknownCall, ch))
        else (Inl UnknownCall, ch))\<rparr>"

section \<open>Sample collaborators and data\<close>

text \<open>
  A small stand-in for the go-ethereum primitives, on which the functions above can be
  run: digests have 32 bytes, signatures 65, keys 20; signing fails on a key of another
  length and recovery on a signature of another length. It has the shape of the real
  primitives and none of their strength.
\<close>

definition sample_crypto :: "(bytes, bytes) crypto" where
  "sample_crypto =
     \<lparr>keccak = (\<lambda>bs. take 32 (rev bs @ replicate 32 0)),
      Sign = (\<lambda>h k. if length k = 20 then (take 65 (k @ h @ replicate 65 0), None)
                     else ([], Some ''invalid private key'')),
      Ecrecover = (\<lambda>h sg. if length sg = 65 then (take 20 sg, None)
                           else ([], Some ''invalid signature length'')),
      ToECDSAPub = (\<lambda>pub. pub),
      PubkeyToAddress = (\<lambda>pub. BytesToAddress pub)\<rparr>"

text \<open>A ledger that accepts every call and keeps the list of the calls it received.\<close>

definition recording_ledger :: "clear_call list PromiseClearing" where
  "recording_ledger = \<lparr>ClearPromise = (\<lambda>call log. (None, log @ [call]))\<rparr>"

definition sample_ConsumerHash :: "ReceivedPromise \<Rightarrow> bytes" where
  "sample_ConsumerHash p = replicate 32 0x33"

definition sample_address :: Address where
  "sample_address = 0xAAAAAAAAAAAAAAAAAAAAAAAAAAAAAAAAAAAAAAAA"

definition sample_promise :: Promise where
  "sample_promise = \<lparr>Receiver = sample_address, SeqNo = 1, Amount = 1000\<rparr>"

definition negative_promise :: Promise where
  "negative_promise = \<lparr>Receiver = sample_address, SeqNo = 1, Amount = - 1\<rparr>"

definition sample_payer :: "bytes MystIdentity" where
  "sample_payer = \<lparr>PrivateKey = replicate 20 0x01\<rparr>"

definition sample_agent :: "bytes MystIdentity" where
  "sample_agent = \<lparr>PrivateKey = replicate 20 0x02\<rparr>"

text \<open>An identity whose key the signing primitive refuses.\<close>

definition broken_agent :: "bytes MystIdentity" where
  "broken_agent = \<lparr>PrivateKey = []\<rparr>"

definition sample_issued :: IssuedPromise where
  "sample_issued = \<lparr>Promise = sample_promise, IssuerSignature = replicate 64 0x11 @ [0x1B]\<rparr>"

definition sample_received :: ReceivedPromise where
  "sample_received =
     \<lparr>IssuedPromise = sample_issued, ReceiverSignature = replicate 64 0x22 @ [0x1C]\<rparr>"

text \<open>Received promises for a cumulative amount, all on the same channel.\<close>

definition received_for :: "64 word \<Rightarrow> ReceivedPromise" where
  "received_for amount =
     \<lparr>IssuedPromise =
        \<lparr>Promise = \<lparr>Receiver = sample_address, SeqNo = 1, Amount = amount\<rparr>,
         IssuerSignature = replicate 64 0x11 @ [0x1B]\<rparr>,
      ReceiverSignature = replicate 64 0x22 @ [0x1C]\<rparr>"

text \<open>Received promises with a signature of 64 and of 66 bytes.\<close>

definition short_issuer_signature :: ReceivedPromise where
  "short_issuer_signature =
     \<lparr>IssuedPromise = \<lparr>Promise = sample_promise, IssuerSignature = replicate 64 0x11\<rparr>,
      ReceiverSignature = replicate 64 0x22 @ [0x1C]\<rparr>"

definition long_receiver_signature :: ReceivedPromise where
  "long_receiver_signature =
     \<lparr>IssuedPromise = sample_issued, ReceiverSignature = replicate 66 0x22\<rparr>"

text \<open>A channel session on a ledger that accepts a request with a 65-byte signature
  that is still valid, and locks for ten units of time.\<close>

definition sample_session ::
  "(unit, Channel, ledger_error + ledger_event) ChannelImplementationSession" where
  "sample_session =
     \<lparr>Contract =
        \<lparr>contract = ledger_contract (\<lambda>ch b vu sg. int (clock ch) \<le> vu \<and> length sg = 65) 10\<rparr>,
      TransactOpts = ()\<rparr>"

definition sample_channel :: Channel where
  "sample_channel = \<lparr>clock = 100, exitRequest = None, funds = 500, payouts = []\<rparr>"

section \<open>Encoding lemmas\<close>

lemma length_be_bytes: "length (be_bytes k m) = k"
  by (induction k arbitrary: m) simp_all

lemma be_val_snoc: "be_val (bs @ [b]) = be_val bs * 256 + uint b"
  by (simp add: be_val_def)

lemma uint_byte_of_int: "uint (word_of_int m :: byte) = m mod 256"
  by (simp add: uint_word_of_int)

lemma be_val_be_bytes: "be_val (be_bytes k m) = m mod 256 ^ k"
proof (induction k arbitrary: m)
  case 0
  show ?case by (simp add: be_val_def)
next
  case (Suc k)
  have "be_val (be_bytes (Suc k) m) = (m div 256) mod 256 ^ k * 256 + m mod 256"
    by (simp add: be_val_snoc Suc.IH uint_byte_of_int)
  also have "\<dots> = m mod (256 * 256 ^ k)"
    using zmod_zmult2_eq [of "256 ^ k" m 256] by (simp add: mult.commute)
  finally show ?case by simp
qed

lemma length_U256: "length (U256 n) = 32"
  by (simp add: U256_def length_be_bytes)

lemma be_val_U256: "be_val (U256 n) = n mod 2 ^ 256"
proof -
  have "(256::int) ^ 32 = 2 ^ 256" by simp
  then show ?thesis by (simp add: U256_def be_val_be_bytes)
qed

text \<open>An \<^verbatim>\<open>int64\<close> below zero is encoded as its two's complement on 256 bits.\<close>

lemma be_val_U256_int64:
  fixes x :: "64 word"
  shows "be_val (U256 (sint x)) = (if sint x < 0 then 2 ^ 256 + sint x else sint x)"
proof -
  have lo: "- (2 ^ 63) \<le> sint x" using sint_ge [of x] by simp
  have hi: "sint x < 2 ^ 63" using sint_lt [of x] by simp
  show ?thesis
  proof (cases "sint x < 0")
    case True
    have "sint x mod 2 ^ 256 = (sint x + 2 ^ 256) mod 2 ^ 256" by simp
    also have "\<dots> = sint x + 2 ^ 256"
      using lo True by (intro mod_pos_pos_trivial) simp_all
    finally show ?thesis using True by (simp add: be_val_U256)
  next
    case False
    then have "sint x mod 2 ^ 256 = sint x"
      using hi by (intro mod_pos_pos_trivial) simp_all
    then show ?thesis using False by (simp add: be_val_U256)
  qed
qed

lemma length_Bytes: "length (Bytes a) = 20"
  by (simp add: Bytes_def length_be_bytes)

lemma copy_bytes_fits:
  "length src \<le> length dst \<Longrightarrow> copy_bytes dst src = src @ drop (length src) dst"
  by (simp add: copy_bytes_def min_def)

lemma length_copy_bytes: "length (copy_bytes dst src) = length dst"
  by (simp add: copy_bytes_def min_def)

lemma prefixes_differ: "bytes_of receiverPrefix \<noteq> bytes_of issuerPrefix"
  by (simp add: bytes_of_def receiverPrefix_def issuerPrefix_def)

section \<open>The promise hash\<close>

text \<open>
  C6. \<open>HashBytes\<close> hashes one byte string built from the fixed prefix and the three
  fields of the promise and from nothing else: the ASCII bytes of \<^verbatim>\<open>"Issuer prefix:"\<close>,
  the 20 raw bytes of the receiver, then the sequence number and the amount, each as
  32 bytes that read, big-endian and unsigned, as the value modulo \<open>2 ^ 256\<close>.
\<close>

theorem HashBytes_canonical:
  "HashBytes c p =
     keccak c (bytes_of issuerPrefix @ Bytes (Receiver p) @
               U256 (sint (SeqNo p)) @ U256 (sint (Amount p)))
   \<and> bytes_of issuerPrefix =
       [0x49, 0x73, 0x73, 0x75, 0x65, 0x72, 0x20, 0x70, 0x72, 0x65, 0x66, 0x69, 0x78, 0x3A]
   \<and> length (Bytes (Receiver p)) = 20
   \<and> length (U256 (sint (SeqNo p))) = 32
   \<and> be_val (U256 (sint (SeqNo p))) = sint (SeqNo p) mod 2 ^ 256
   \<and> length (U256 (sint (Amount p))) = 32
   \<and> be_val (U256 (sint (Amount p))) = sint (Amount p) mod 2 ^ 256"
proof -
  have "HashBytes c p =
     keccak c (bytes_of issuerPrefix @ Bytes (Receiver p) @
               U256 (sint (SeqNo p)) @ U256 (sint (Amount p)))"
    by (simp add: HashBytes_def Keccak256_def)
  moreover have "bytes_of issuerPrefix =
       [0x49, 0x73, 0x73, 0x75, 0x65, 0x72, 0x20, 0x70, 0x72, 0x65, 0x66, 0x69, 0x78, 0x3A]"
    by (simp add: bytes_of_def issuerPrefix_def)
  ultimately show ?thesis
    by (simp add: length_Bytes length_U256 be_val_U256)
qed

text \<open>
  C4, as the code has it. Neither function looks at the sign of a field. \<open>HashBytes\<close>
  has no error result. \<open>SignByPayer\<close> returns the error of \<^verbatim>\<open>crypto.Sign\<close> on the
  promise hash and nothing else, and returns no promise exactly when that error is
  there. A negative amount or sequence number is encoded as its two's complement on
  256 bits and hashed like any other value.
\<close>

theorem SignByPayer_no_sign_check:
  "snd (SignByPayer c p payer) = snd (Sign c (HashBytes c p) (PrivateKey payer))
   \<and> (fst (SignByPayer c p payer) = None) =
       (snd (Sign c (HashBytes c p) (PrivateKey payer)) \<noteq> None)
   \<and> be_val (U256 (sint (Amount p))) =
       (if sint (Amount p) < 0 then 2 ^ 256 + sint (Amount p) else sint (Amount p))
   \<and> be_val (U256 (sint (SeqNo p))) =
       (if sint (SeqNo p) < 0 then 2 ^ 256 + sint (SeqNo p) else sint (SeqNo p))"
proof -
  obtain sg e where sg: "Sign c (HashBytes c p) (PrivateKey payer) = (sg, e)"
    by (cases "Sign c (HashBytes c p) (PrivateKey payer)")
  have "snd (SignByPayer c p payer) = e" "(fst (SignByPayer c p payer) = None) = (e \<noteq> None)"
    using sg by (cases e; simp add: SignByPayer_def)+
  then show ?thesis
    using sg by (simp add: be_val_U256_int64)
qed

text \<open>
  C4 as the specification states it does not hold: a promise whose amount is \<open>-1\<close> is
  encoded, hashed and signed, and no error comes back.
\<close>

theorem negative_promise_signed:
  "sint (Amount negative_promise) = - 1
   \<and> U256 (sint (Amount negative_promise)) = replicate 32 0xFF
   \<and> fst (SignByPayer sample_crypto negative_promise sample_payer) \<noteq> None
   \<and> snd (SignByPayer sample_crypto negative_promise sample_payer) = None"
proof -
  have "sint (Amount negative_promise) = - 1"
    by (simp add: negative_promise_def)
  moreover have "U256 (- 1) = replicate 32 0xFF"
    by code_simp
  moreover have "fst (SignByPayer sample_crypto negative_promise sample_payer) \<noteq> None"
    by (simp add: SignByPayer_def Let_def sample_crypto_def sample_payer_def)
  moreover have "snd (SignByPayer sample_crypto negative_promise sample_payer) = None"
    by (simp add: SignByPayer_def Let_def sample_crypto_def sample_payer_def)
  ultimately show ?thesis by simp
qed

section \<open>The signing chain\<close>

lemma SignByReceiver_recovered:
  assumes "Ecrecover c (HashBytes c (Promise ip)) (IssuerSignature ip) = (pub, None)"
  shows "SignByReceiver c ip agent =
     (Some \<lparr>IssuedPromise = ip,
            ReceiverSignature =
              fst (Sign c (keccak c (bytes_of receiverPrefix @ HashBytes c (Promise ip) @
                                      Bytes (PubkeyToAddress c (ToECDSAPub c pub))))
                     (PrivateKey agent))\<rparr>,
      None)"
  using assms by (simp add: SignByReceiver_def Keccak256_def Let_def split: prod.splits)

lemma SignByReceiver_not_recovered:
  assumes "Ecrecover c (HashBytes c (Promise ip)) (IssuerSignature ip) = (pub, Some err)"
  shows "SignByReceiver c ip agent = (None, Some err)"
  using assms by (simp add: SignByReceiver_def)

text \<open>An error never comes with a promise: the result is one or the other.\<close>

lemma SignByReceiver_one_or_other:
  "(\<exists>err. SignByReceiver c ip agent = (None, Some err))
   \<or> (\<exists>rp. SignByReceiver c ip agent = (Some rp, None))"
proof (cases "Ecrecover c (HashBytes c (Promise ip)) (IssuerSignature ip)")
  case (Pair pub e)
  then show ?thesis
    by (cases e) (simp_all add: SignByReceiver_not_recovered SignByReceiver_recovered)
qed

text \<open>
  C2, where the code departs from it. When recovery of the issuer succeeds and
  \<^verbatim>\<open>crypto.Sign\<close> fails for the agent's key, \<open>SignByReceiver\<close> returns a promise that
  carries the bytes \<^verbatim>\<open>Sign\<close> gave with its error, and reports no error.
\<close>

theorem SignByReceiver_drops_sign_error:
  assumes "Ecrecover c (HashBytes c (Promise ip)) (IssuerSignature ip) = (pub, None)"
    and "Sign c (Keccak256 c [bytes_of receiverPrefix, HashBytes c (Promise ip),
                              Bytes (PubkeyToAddress c (ToECDSAPub c pub))])
           (PrivateKey agent) = (sg, Some err)"
  shows "SignByReceiver c ip agent =
     (Some \<lparr>IssuedPromise = ip, ReceiverSignature = sg\<rparr>, None)"
  using assms by (simp add: SignByReceiver_def Let_def)

theorem SignByReceiver_drops_sign_error_witness:
  "Ecrecover sample_crypto (HashBytes sample_crypto (Promise sample_issued))
     (IssuerSignature sample_issued) = (replicate 20 0x11, None)
   \<and> Sign sample_crypto
       (Keccak256 sample_crypto
          [bytes_of receiverPrefix, HashBytes sample_crypto (Promise sample_issued),
           Bytes (PubkeyToAddress sample_crypto (ToECDSAPub sample_crypto (replicate 20 0x11)))])
       (PrivateKey broken_agent) = ([], Some ''invalid private key'')
   \<and> SignByReceiver sample_crypto sample_issued broken_agent =
       (Some \<lparr>IssuedPromise = sample_issued, ReceiverSignature = []\<rparr>, None)"
proof -
  have rec: "Ecrecover sample_crypto (HashBytes sample_crypto (Promise sample_issued))
     (IssuerSignature sample_issued) = (replicate 20 0x11, None)"
    by (simp add: sample_crypto_def sample_issued_def)
  have sgn: "Sign sample_crypto
       (Keccak256 sample_crypto
          [bytes_of receiverPrefix, HashBytes sample_crypto (Promise sample_issued),
           Bytes (PubkeyToAddress sample_crypto (ToECDSAPub sample_crypto (replicate 20 0x11)))])
       (PrivateKey broken_agent) = ([], Some ''invalid private key'')"
    by (simp add: sample_crypto_def broken_agent_def)
  show ?thesis
    using rec sgn SignByReceiver_drops_sign_error [OF rec sgn] by simp
qed

text \<open>
  What the code does with the agent's signature. When \<open>SignByReceiver\<close> returns
  without error, the issuer's key was recovered from the promise hash \<open>h1\<close> and the
  issuer's signature, and the bytes attached are the ones \<^verbatim>\<open>crypto.Sign\<close> returns,
  under the agent's key, for the hash \<open>h2\<close> of the receiver prefix, \<open>h1\<close> and the 20
  bytes of the recovered issuer's address. The two prefixes are different constants.
  Whether \<^verbatim>\<open>Sign\<close> reported an error plays no part.
\<close>

lemma SignByReceiver_attaches_Sign_output:
  assumes "SignByReceiver c ip agent = (Some rp, None)"
  shows "snd (Ecrecover c (HashBytes c (Promise ip)) (IssuerSignature ip)) = None
   \<and> ReceiverSignature rp =
       fst (Sign c
              (keccak c
                 (bytes_of receiverPrefix @ HashBytes c (Promise ip) @
                  Bytes (PubkeyToAddress c (ToECDSAPub c
                    (fst (Ecrecover c (HashBytes c (Promise ip)) (IssuerSignature ip)))))))
              (PrivateKey agent))
   \<and> receiverPrefix \<noteq> issuerPrefix
   \<and> bytes_of receiverPrefix \<noteq> bytes_of issuerPrefix"
proof -
  obtain pub e where rec:
    "Ecrecover c (HashBytes c (Promise ip)) (IssuerSignature ip) = (pub, e)"
    by (cases "Ecrecover c (HashBytes c (Promise ip)) (IssuerSignature ip)")
  have e: "e = None"
  proof (cases e)
    case None
    then show ?thesis .
  next
    case (Some err)
    with rec assms show ?thesis
      by (simp add: SignByReceiver_not_recovered)
  qed
  have "receiverPrefix \<noteq> issuerPrefix"
    by (simp add: receiverPrefix_def issuerPrefix_def)
  then show ?thesis
    using assms rec e SignByReceiver_recovered [of c ip pub agent] prefixes_differ
    by auto
qed

text \<open>
  C3, where the code departs from it. \<open>SignByReceiver\<close> can succeed, that is return a
  promise and no error, while the promise carries no signature of the agent over
  \<open>h2\<close>. On an issued promise whose issuer is recovered and an agent key that
  \<^verbatim>\<open>crypto.Sign\<close> refuses, the call to \<^verbatim>\<open>Sign\<close> for \<open>h2\<close> under that key ends in an error,
  and the function still returns the promise, with an empty counter-signature and a
  nil error. The cause is the unread error of \<^verbatim>\<open>Sign\<close>, as under C2.
\<close>

theorem SignByReceiver_success_without_signature:
  "SignByReceiver sample_crypto sample_issued broken_agent =
     (Some \<lparr>IssuedPromise = sample_issued, ReceiverSignature = []\<rparr>, None)
   \<and> Ecrecover sample_crypto (HashBytes sample_crypto (Promise sample_issued))
       (IssuerSignature sample_issued) = (replicate 20 0x11, None)
   \<and> Sign sample_crypto
       (keccak sample_crypto
          (bytes_of receiverPrefix @ HashBytes sample_crypto (Promise sample_issued) @
           Bytes (PubkeyToAddress sample_crypto (ToECDSAPub sample_crypto
             (fst (Ecrecover sample_crypto (HashBytes sample_crypto (Promise sample_issued))
                     (IssuerSignature sample_issued)))))))
       (PrivateKey broken_agent) = ([], Some ''invalid private key'')"
proof -
  have rec: "Ecrecover sample_crypto (HashBytes sample_crypto (Promise sample_issued))
       (IssuerSignature sample_issued) = (replicate 20 0x11, None)"
    by (simp add: sample_crypto_def sample_issued_def)
  have sgn: "Sign sample_crypto h (PrivateKey broken_agent) =
      ([], Some ''invalid private key'')" for h
    by (simp add: sample_crypto_def broken_agent_def)
  have "SignByReceiver sample_crypto sample_issued broken_agent =
     (Some \<lparr>IssuedPromise = sample_issued, ReceiverSignature = []\<rparr>, None)"
    using SignByReceiver_recovered [OF rec, of broken_agent] by (simp add: sgn)
  with rec sgn show ?thesis by simp
qed

text \<open>
  C7, the part that is about this code. Given the law of the signature scheme that
  recovery returns the public key of the signing key, the agent's hash is taken over
  the address of the payer who signed: both steps hash the same promise.
\<close>

lemma SignByReceiver_after_SignByPayer:
  assumes law: "\<And>h k sg. Sign c h k = (sg, None) \<Longrightarrow> Ecrecover c h sg = (public_of k, None)"
    and issued: "SignByPayer c p payer = (Some ip, None)"
  shows "SignByReceiver c ip agent =
     (Some \<lparr>IssuedPromise = ip,
            ReceiverSignature =
              fst (Sign c (keccak c (bytes_of receiverPrefix @ HashBytes c p @
                     Bytes (PubkeyToAddress c (ToECDSAPub c (public_of (PrivateKey payer))))))
                     (PrivateKey agent))\<rparr>,
      None)"
proof -
  obtain sg e where sg: "Sign c (HashBytes c p) (PrivateKey payer) = (sg, e)"
    by (cases "Sign c (HashBytes c p) (PrivateKey payer)")
  from issued sg have e: "e = None" and ip: "ip = \<lparr>Promise = p, IssuerSignature = sg\<rparr>"
    by (cases e; simp add: SignByPayer_def)+
  from law sg e have "Ecrecover c (HashBytes c p) sg = (public_of (PrivateKey payer), None)"
    by simp
  then show ?thesis
    using SignByReceiver_recovered [of c ip "public_of (PrivateKey payer)" agent] ip
    by simp
qed

text \<open>
  C10. The promise inside the result of \<open>SignByPayer\<close> is the input promise, and the
  issued promise inside the result of \<open>SignByReceiver\<close> is the input issued promise:
  receiver, sequence number, amount and issuer signature are those of the input.
\<close>

theorem signing_keeps_input:
  "(SignByPayer c p payer = (Some ip, e) \<longrightarrow> Promise ip = p)
   \<and> (SignByReceiver c ip' agent = (Some rp, e') \<longrightarrow>
        IssuedPromise rp = ip'
        \<and> Receiver (Promise (IssuedPromise rp)) = Receiver (Promise ip')
        \<and> SeqNo (Promise (IssuedPromise rp)) = SeqNo (Promise ip')
        \<and> Amount (Promise (IssuedPromise rp)) = Amount (Promise ip')
        \<and> IssuerSignature (IssuedPromise rp) = IssuerSignature ip')"
proof -
  have "Promise ip = p" if "SignByPayer c p payer = (Some ip, e)"
    using that by (auto simp: SignByPayer_def split: prod.splits option.splits)
  moreover have "IssuedPromise rp = ip'" if "SignByReceiver c ip' agent = (Some rp, e')"
    using that by (auto simp: SignByReceiver_def Let_def split: prod.splits option.splits)
  ultimately show ?thesis by auto
qed

theorem signing_keeps_input_witness:
  "SignByPayer sample_crypto sample_promise sample_payer =
     (Some \<lparr>Promise = sample_promise,
            IssuerSignature =
              fst (Sign sample_crypto (HashBytes sample_crypto sample_promise)
                     (PrivateKey sample_payer))\<rparr>, None)
   \<and> Promise \<lparr>Promise = sample_promise,
               IssuerSignature =
                 fst (Sign sample_crypto (HashBytes sample_crypto sample_promise)
                        (PrivateKey sample_payer))\<rparr> = sample_promise
   \<and> SignByReceiver sample_crypto sample_issued sample_agent =
       (Some \<lparr>IssuedPromise = sample_issued,
              ReceiverSignature = replicate 20 0x02 @ replicate 20 0x11 @ replicate 25 0\<rparr>,
        None)
   \<and> IssuedPromise
       \<lparr>IssuedPromise = sample_issued,
        ReceiverSignature = replicate 20 0x02 @ replicate 20 0x11 @ replicate 25 0\<rparr> =
       sample_issued"
proof -
  have one: "SignByPayer sample_crypto sample_promise sample_payer =
     (Some \<lparr>Promise = sample_promise,
            IssuerSignature =
              fst (Sign sample_crypto (HashBytes sample_crypto sample_promise)
                     (PrivateKey sample_payer))\<rparr>, None)"
    by (simp add: SignByPayer_def Let_def sample_crypto_def sample_payer_def)
  have two: "SignByReceiver sample_crypto sample_issued sample_agent =
     (Some \<lparr>IssuedPromise = sample_issued,
            ReceiverSignature = replicate 20 0x02 @ replicate 20 0x11 @ replicate 25 0\<rparr>,
      None)"
    by code_simp
  show ?thesis
    using one two
      signing_keeps_input [of sample_crypto sample_promise sample_payer _ None
        sample_issued sample_agent _ None]
    by simp
qed

section \<open>Settlement\<close>

lemma ClearReceivedPromise_decomposed:
  assumes "D (IssuerSignature (IssuedPromise p)) = (issuerSig, None)"
    and "D (ReceiverSignature p) = (receiverSig, None)"
  shows "ClearReceivedPromise D CH pc p s =
     ClearPromise pc
       (replicate 10 0 @ [V issuerSig, V receiverSig] @
          Bytes (Receiver (Promise (IssuedPromise p))),
        copy_bytes (replicate 32 0) (CH p),
        sint (SeqNo (Promise (IssuedPromise p))), sint (Amount (Promise (IssuedPromise p))),
        R issuerSig, S issuerSig, R receiverSig, S receiverSig) s"
  using assms
  by (simp add: ClearReceivedPromise_def Let_def copy_bytes_fits length_Bytes)

lemma DecomposeSignature_spec_65:
  "DecomposeSignature_spec (replicate 64 a @ [v]) =
     (\<lparr>V = v, R = replicate 32 a, S = replicate 32 a\<rparr>, None)"
  by (simp add: DecomposeSignature_spec_def nth_append)

lemma decompose_received_for:
  "DecomposeSignature_spec (IssuerSignature (IssuedPromise (received_for a))) =
     (\<lparr>V = 0x1B, R = replicate 32 0x11, S = replicate 32 0x11\<rparr>, None)"
  "DecomposeSignature_spec (ReceiverSignature (received_for a)) =
     (\<lparr>V = 0x1C, R = replicate 32 0x22, S = replicate 32 0x22\<rparr>, None)"
  by (simp_all add: received_for_def DecomposeSignature_spec_65)

text \<open>
  C1. When both signatures decompose, \<open>ClearReceivedPromise\<close> is the ledger call
  \<open>ClearPromise\<close> on the packed word, the extra data hash, the sequence number, the
  amount, and \<open>R\<close>, \<open>S\<close> of the issuer's and of the receiver's signature. The packed
  word has 32 bytes: ten zeros, the issuer's \<open>V\<close> at offset 10, the receiver's \<open>V\<close> at
  offset 11, and the 20 bytes of the receiver address from offset 12 on. The extra
  data hash is the consumer hash copied into 32 zeroed bytes.
\<close>

theorem ClearReceivedPromise_submits:
  assumes "D (IssuerSignature (IssuedPromise p)) = (issuerSig, None)"
    and "D (ReceiverSignature p) = (receiverSig, None)"
  shows "let packedWord = replicate 10 0 @ [V issuerSig, V receiverSig] @
                            Bytes (Receiver (Promise (IssuedPromise p)));
             extraDataHash = copy_bytes (replicate 32 0) (CH p)
         in ClearReceivedPromise D CH pc p s =
              ClearPromise pc
                (packedWord, extraDataHash,
                 sint (SeqNo (Promise (IssuedPromise p))),
                 sint (Amount (Promise (IssuedPromise p))),
                 R issuerSig, S issuerSig, R receiverSig, S receiverSig) s
            \<and> length packedWord = 32
            \<and> (\<forall>i<10. packedWord ! i = 0)
            \<and> packedWord ! 10 = V issuerSig
            \<and> packedWord ! 11 = V receiverSig
            \<and> drop 12 packedWord = Bytes (Receiver (Promise (IssuedPromise p)))
            \<and> length (Bytes (Receiver (Promise (IssuedPromise p)))) = 20
            \<and> length extraDataHash = 32"
  using ClearReceivedPromise_decomposed [OF assms, of CH pc s]
  by (simp add: Let_def nth_append length_Bytes length_copy_bytes)

theorem ClearReceivedPromise_submits_witness:
  "DecomposeSignature_spec (IssuerSignature (IssuedPromise sample_received)) =
     (\<lparr>V = 0x1B, R = replicate 32 0x11, S = replicate 32 0x11\<rparr>, None)
   \<and> DecomposeSignature_spec (ReceiverSignature sample_received) =
     (\<lparr>V = 0x1C, R = replicate 32 0x22, S = replicate 32 0x22\<rparr>, None)
   \<and> ClearReceivedPromise DecomposeSignature_spec sample_ConsumerHash recording_ledger
       sample_received [] =
     (None,
      [(replicate 10 0 @ [0x1B, 0x1C] @ replicate 20 0xAA, replicate 32 0x33, 1, 1000,
        replicate 32 0x11, replicate 32 0x11, replicate 32 0x22, replicate 32 0x22)])"
proof -
  have i: "DecomposeSignature_spec (IssuerSignature (IssuedPromise sample_received)) =
     (\<lparr>V = 0x1B, R = replicate 32 0x11, S = replicate 32 0x11\<rparr>, None)"
    by (simp add: sample_received_def sample_issued_def DecomposeSignature_spec_65)
  have r: "DecomposeSignature_spec (ReceiverSignature sample_received) =
     (\<lparr>V = 0x1C, R = replicate 32 0x22, S = replicate 32 0x22\<rparr>, None)"
    by (simp add: sample_received_def DecomposeSignature_spec_65)
  have a: "Bytes sample_address = replicate 20 0xAA"
    by code_simp
  have "ClearReceivedPromise DecomposeSignature_spec sample_ConsumerHash recording_ledger
       sample_received [] =
     (None,
      [(replicate 10 0 @ [0x1B, 0x1C] @ replicate 20 0xAA, replicate 32 0x33, 1, 1000,
        replicate 32 0x11, replicate 32 0x11, replicate 32 0x22, replicate 32 0x22)])"
    using ClearReceivedPromise_submits [OF i r, of sample_ConsumerHash recording_ledger "[]"] a
    by (simp add: Let_def recording_ledger_def sample_ConsumerHash_def copy_bytes_def
        sample_received_def sample_issued_def sample_promise_def)
  with i r show ?thesis by simp
qed

text \<open>
  C9. When the issuer's signature does not decompose, or it does and the receiver's
  does not, \<open>ClearReceivedPromise\<close> returns that error and leaves the ledger as it was,
  whatever the ledger call \<open>ClearPromise\<close> would do: the call is not made.
\<close>

theorem ClearReceivedPromise_decompose_error:
  "(snd (D (IssuerSignature (IssuedPromise p))) = Some err \<longrightarrow>
      ClearReceivedPromise D CH pc p s = (Some err, s))
   \<and> (snd (D (IssuerSignature (IssuedPromise p))) = None \<and>
      snd (D (ReceiverSignature p)) = Some err \<longrightarrow>
      ClearReceivedPromise D CH pc p s = (Some err, s))"
proof -
  obtain i ei where i: "D (IssuerSignature (IssuedPromise p)) = (i, ei)"
    by (cases "D (IssuerSignature (IssuedPromise p))")
  obtain r er where r: "D (ReceiverSignature p) = (r, er)"
    by (cases "D (ReceiverSignature p)")
  show ?thesis
    using i r by (simp add: ClearReceivedPromise_def)
qed

theorem ClearReceivedPromise_decompose_error_witness:
  "snd (DecomposeSignature_spec (IssuerSignature (IssuedPromise short_issuer_signature))) =
     Some ''MalformedSignatureError''
   \<and> ClearReceivedPromise DecomposeSignature_spec sample_ConsumerHash recording_ledger
       short_issuer_signature [] = (Some ''MalformedSignatureError'', [])
   \<and> snd (DecomposeSignature_spec (IssuerSignature (IssuedPromise long_receiver_signature))) =
     None
   \<and> snd (DecomposeSignature_spec (ReceiverSignature long_receiver_signature)) =
     Some ''MalformedSignatureError''
   \<and> ClearReceivedPromise DecomposeSignature_spec sample_ConsumerHash recording_ledger
       long_receiver_signature [] = (Some ''MalformedSignatureError'', [])"
proof -
  have a: "snd (DecomposeSignature_spec
      (IssuerSignature (IssuedPromise short_issuer_signature))) =
     Some ''MalformedSignatureError''"
    by (simp add: short_issuer_signature_def DecomposeSignature_spec_def)
  have b: "snd (DecomposeSignature_spec
      (IssuerSignature (IssuedPromise long_receiver_signature))) = None"
    by (simp add: long_receiver_signature_def sample_issued_def DecomposeSignature_spec_def)
  have c: "snd (DecomposeSignature_spec (ReceiverSignature long_receiver_signature)) =
     Some ''MalformedSignatureError''"
    by (simp add: long_receiver_signature_def DecomposeSignature_spec_def)
  show ?thesis
    using a b c
      ClearReceivedPromise_decompose_error [of DecomposeSignature_spec short_issuer_signature
        "''MalformedSignatureError''" sample_ConsumerHash recording_ledger "[]"]
      ClearReceivedPromise_decompose_error [of DecomposeSignature_spec long_receiver_signature
        "''MalformedSignatureError''" sample_ConsumerHash recording_ledger "[]"]
    by simp
qed

text \<open>
  C5, as the code has it. \<open>ClearReceivedPromise\<close> keeps nothing from one submission to
  the next and compares no amounts: of two promises whose signatures decompose, the
  second goes to the ledger with its own amount, after the first, whatever the two
  amounts are. Refusing a lower cumulative amount is left to the ledger.
\<close>

theorem ClearReceivedPromise_no_amount_guard:
  assumes "D (IssuerSignature (IssuedPromise p1)) = (i1, None)"
    and "D (ReceiverSignature p1) = (r1, None)"
    and "D (IssuerSignature (IssuedPromise p2)) = (i2, None)"
    and "D (ReceiverSignature p2) = (r2, None)"
  shows "\<exists>w1 h1 w2 h2.
     ClearReceivedPromise D CH pc p2 (snd (ClearReceivedPromise D CH pc p1 s)) =
       ClearPromise pc
         (w2, h2, sint (SeqNo (Promise (IssuedPromise p2))),
          sint (Amount (Promise (IssuedPromise p2))), R i2, S i2, R r2, S r2)
         (snd (ClearPromise pc
                 (w1, h1, sint (SeqNo (Promise (IssuedPromise p1))),
                  sint (Amount (Promise (IssuedPromise p1))), R i1, S i1, R r1, S r1) s))"
  using ClearReceivedPromise_decomposed [OF assms(1,2), of CH pc s]
    ClearReceivedPromise_decomposed [OF assms(3,4), of CH pc]
  by (intro exI) simp

theorem ClearReceivedPromise_no_amount_guard_witness:
  "DecomposeSignature_spec (IssuerSignature (IssuedPromise (received_for 100))) =
     (\<lparr>V = 0x1B, R = replicate 32 0x11, S = replicate 32 0x11\<rparr>, None)
   \<and> DecomposeSignature_spec (ReceiverSignature (received_for 100)) =
     (\<lparr>V = 0x1C, R = replicate 32 0x22, S = replicate 32 0x22\<rparr>, None)
   \<and> DecomposeSignature_spec (IssuerSignature (IssuedPromise (received_for 90))) =
     (\<lparr>V = 0x1B, R = replicate 32 0x11, S = replicate 32 0x11\<rparr>, None)
   \<and> DecomposeSignature_spec (ReceiverSignature (received_for 90)) =
     (\<lparr>V = 0x1C, R = replicate 32 0x22, S = replicate 32 0x22\<rparr>, None)
   \<and> (\<exists>w1 h1 w2 h2.
        ClearReceivedPromise DecomposeSignature_spec sample_ConsumerHash recording_ledger
          (received_for 90)
          (snd (ClearReceivedPromise DecomposeSignature_spec sample_ConsumerHash
                  recording_ledger (received_for 100) [])) =
        (None,
         [(w1, h1, 1, 100, replicate 32 0x11, replicate 32 0x11,
           replicate 32 0x22, replicate 32 0x22),
          (w2, h2, 1, 90, replicate 32 0x11, replicate 32 0x11,
           replicate 32 0x22, replicate 32 0x22)]))"
  using decompose_received_for [of 100] decompose_received_for [of 90]
    ClearReceivedPromise_no_amount_guard [OF decompose_received_for [of 100]
      decompose_received_for [of 90], of sample_ConsumerHash recording_ledger "[]"]
  by (simp add: recording_ledger_def received_for_def)

text \<open>
  C5 as the specification states it does not hold: after a promise for the cumulative
  amount 100, one for 90 on the same channel is not refused. Both calls reach the ledger, in that
  order, and the second returns no error.
\<close>

theorem lower_amount_submitted:
  "fst (ClearReceivedPromise DecomposeSignature_spec sample_ConsumerHash recording_ledger
          (received_for 90)
          (snd (ClearReceivedPromise DecomposeSignature_spec sample_ConsumerHash
                  recording_ledger (received_for 100) []))) = None
   \<and> map call_amount
       (snd (ClearReceivedPromise DecomposeSignature_spec sample_ConsumerHash recording_ledger
               (received_for 90)
               (snd (ClearReceivedPromise DecomposeSignature_spec sample_ConsumerHash
                       recording_ledger (received_for 100) [])))) = [100, 90]"
proof -
  have run: "ClearReceivedPromise DecomposeSignature_spec sample_ConsumerHash recording_ledger
      (received_for a) log =
     (None, log @
        [(replicate 10 0 @ [0x1B, 0x1C] @ Bytes sample_address,
          copy_bytes (replicate 32 0) (sample_ConsumerHash (received_for a)),
          1, sint a, replicate 32 0x11, replicate 32 0x11,
          replicate 32 0x22, replicate 32 0x22)])" for a log
    using ClearReceivedPromise_decomposed [OF decompose_received_for [of a],
        of sample_ConsumerHash recording_ledger log]
    by (simp add: recording_ledger_def received_for_def)
  show ?thesis
    by (simp add: run call_amount_def)
qed

section \<open>Channel exit\<close>

lemma Session_FinalizeExit_ledger:
  "Session_FinalizeExit
     \<lparr>Contract = \<lparr>contract = ledger_contract accepted delay\<rparr>, TransactOpts = opts\<rparr> ch =
   ledger_finalizeExit ch"
  by (simp add: Session_FinalizeExit_def FinalizeExit_def ledger_contract_def)

lemma Session_RequestExit_ledger:
  "Session_RequestExit
     \<lparr>Contract = \<lparr>contract = ledger_contract accepted delay\<rparr>, TransactOpts = opts\<rparr>
     b vu sg ch =
   ledger_requestExit accepted delay b vu sg ch"
  by (simp add: Session_RequestExit_def RequestExit_def ledger_contract_def)

text \<open>A call that the ledger refuses leaves the channel as it was.\<close>

lemma ledger_refusal_keeps_state:
  assumes "Transact (ledger_contract accepted delay) opts method args ch = (Inl e, ch')"
  shows "ch' = ch"
  using assms
  by (auto simp: ledger_contract_def ledger_finalizeExit_def ledger_requestExit_def
      split: if_splits list.splits abi_value.splits option.splits)

text \<open>
  C8, on the ledger as the spec describes it. Let a session's \<open>RequestExit\<close> be
  accepted at ledger time \<open>clock ch\<close>, whatever request was pending before, and let
  no other request be accepted afterwards. \<open>FinalizeExit\<close> at a time before the timelock's expiry fails with
  \<open>ExitNotMatured\<close> and changes nothing; at a time after it, it succeeds, pays the
  channel's funds to the beneficiary of that request and closes the request.
\<close>

theorem FinalizeExit_timelock:
  assumes "Session_RequestExit
             \<lparr>Contract = \<lparr>contract = ledger_contract accepted delay\<rparr>, TransactOpts = opts\<rparr>
             b vu sg ch = (Inr ev, ch1)"
  shows "(t < clock ch + delay \<longrightarrow>
            Session_FinalizeExit
              \<lparr>Contract = \<lparr>contract = ledger_contract accepted delay\<rparr>, TransactOpts = opts\<rparr>
              (ch1\<lparr>clock := t\<rparr>) = (Inl ExitNotMatured, ch1\<lparr>clock := t\<rparr>))
       \<and> (clock ch + delay < t \<longrightarrow>
            Session_FinalizeExit
              \<lparr>Contract = \<lparr>contract = ledger_contract accepted delay\<rparr>, TransactOpts = opts\<rparr>
              (ch1\<lparr>clock := t\<rparr>) =
              (Inr (FinalizeExitPaid (funds ch)),
               ch1\<lparr>clock := t, exitRequest := None, funds := 0,
                    payouts := payouts ch @ [(b, funds ch)]\<rparr>))"
proof -
  from assms have acc: "accepted ch b vu sg"
    and ch1: "ch1 = ch\<lparr>exitRequest := Some \<lparr>beneficiary = b, validUntil = vu,
                          timelockExpiry = clock ch + delay, signature = sg\<rparr>\<rparr>"
    by (auto simp: Session_RequestExit_ledger ledger_requestExit_def split: if_splits)
  show ?thesis
    by (simp add: Session_FinalizeExit_ledger ledger_finalizeExit_def ch1)
qed

theorem FinalizeExit_timelock_witness:
  "Session_RequestExit sample_session sample_address 150 (replicate 65 7) sample_channel =
     (Inr (ExitRequested 110),
      sample_channel\<lparr>exitRequest := Some \<lparr>beneficiary = sample_address, validUntil = 150,
                         timelockExpiry = 110, signature = replicate 65 7\<rparr>\<rparr>)
   \<and> Session_FinalizeExit sample_session
       (sample_channel\<lparr>exitRequest := Some \<lparr>beneficiary = sample_address, validUntil = 150,
                          timelockExpiry = 110, signature = replicate 65 7\<rparr>,
                        clock := 105\<rparr>) =
     (Inl ExitNotMatured,
      sample_channel\<lparr>exitRequest := Some \<lparr>beneficiary = sample_address, validUntil = 150,
                         timelockExpiry = 110, signature = replicate 65 7\<rparr>,
                       clock := 105\<rparr>)
   \<and> Session_FinalizeExit sample_session
       (sample_channel\<lparr>exitRequest := Some \<lparr>beneficiary = sample_address, validUntil = 150,
                          timelockExpiry = 110, signature = replicate 65 7\<rparr>,
                        clock := 120\<rparr>) =
     (Inr (FinalizeExitPaid 500),
      \<lparr>clock = 120, exitRequest = None, funds = 0, payouts = [(sample_address, 500)]\<rparr>)"
proof -
  have req: "Session_RequestExit
      \<lparr>Contract = \<lparr>contract =
          ledger_contract (\<lambda>ch b vu sg. int (clock ch) \<le> vu \<and> length sg = 65) 10\<rparr>,
       TransactOpts = ()\<rparr>
      sample_address 150 (replicate 65 7) sample_channel =
     (Inr (ExitRequested 110),
      sample_channel\<lparr>exitRequest := Some \<lparr>beneficiary = sample_address, validUntil = 150,
                         timelockExpiry = 110, signature = replicate 65 7\<rparr>\<rparr>)"
    by (simp add: Session_RequestExit_ledger ledger_requestExit_def sample_channel_def)
  show ?thesis
    using req FinalizeExit_timelock [OF req, of 105] FinalizeExit_timelock [OF req, of 120]
    by (simp add: sample_session_def sample_channel_def)
qed

end
